theory Spec2Isabelle
  imports Main
begin

unbundle bit_operations_syntax

section \<open>Exceptions and the database session\<close>

text \<open>
  The exceptions that the functions of \<^verbatim>\<open>app/models.py\<close> can raise or meet. The first
  three derive from \<^verbatim>\<open>BaseException\<close> only; every other one derives from
  \<^verbatim>\<open>Exception\<close>. \<^verbatim>\<open>SignatureExpired\<close> is a subclass of \<^verbatim>\<open>BadSignature\<close> in itsdangerous.
\<close>

datatype py_exception =
    KeyboardInterrupt
  | SystemExit
  | GeneratorExit
  | AttributeError string
  | TypeError
  | ValueError string
  | KeyError string
  | BadSignature
  | SignatureExpired
  | InvalidSignatureError
  | ExpiredSignatureError
  | DecodeError
  | MultipleResultsFound
  | OtherError string

fun is_Exception :: "py_exception \<Rightarrow> bool" where
  "is_Exception KeyboardInterrupt = False"
| "is_Exception SystemExit = False"
| "is_Exception GeneratorExit = False"
| "is_Exception _ = True"

text \<open>
  \<^verbatim>\<open>db.session\<close> is the one shared session. The model keeps the calls made on it, in
  order, the rows as the open transaction sees them (\<open>view\<close>) and the rows that are
  committed (\<open>stored\<close>). \<^verbatim>\<open>add\<close> stages a change of the view; \<^verbatim>\<open>commit\<close> stores the
  view; \<^verbatim>\<open>rollback\<close> and \<^verbatim>\<open>close\<close> drop what is not committed.
\<close>

datatype entity = UserRow string | RoleRow string

datatype session_op = Add entity | Commit | Rollback | Close

record 'r db =
  session :: "session_op list"
  view :: 'r
  stored :: 'r

definition session_add :: "entity \<Rightarrow> ('r \<Rightarrow> 'r) \<Rightarrow> ('r, 'z) db_scheme \<Rightarrow> ('r, 'z) db_scheme" where
  "session_add e stage d = d\<lparr>session := session d @ [Add e], view := stage (view d)\<rparr>"

definition session_commit :: "('r, 'z) db_scheme \<Rightarrow> ('r, 'z) db_scheme" where
  "session_commit d = d\<lparr>session := session d @ [Commit], stored := view d\<rparr>"

definition session_rollback :: "('r, 'z) db_scheme \<Rightarrow> ('r, 'z) db_scheme" where
  "session_rollback d = d\<lparr>session := session d @ [Rollback], view := stored d\<rparr>"

definition session_close :: "('r, 'z) db_scheme \<Rightarrow> ('r, 'z) db_scheme" where
  "session_close d = d\<lparr>session := session d @ [Close], view := stored d\<rparr>"

text \<open>
  \<^verbatim>\<open>db_session_manager(session_close=True)\<close>: the body of the \<^verbatim>\<open>with\<close> block is a
  function of the state that returns a value or raises. \<^verbatim>\<open>except Exception\<close> meets
  only the exceptions derived from \<^verbatim>\<open>Exception\<close>; \<^verbatim>\<open>raise\<close> re-raises the one caught;
  the \<^verbatim>\<open>finally\<close> clause runs on every exit.
\<close>

definition session_finally :: "bool \<Rightarrow> ('r, 'z) db_scheme \<Rightarrow> ('r, 'z) db_scheme" where
  "session_finally do_close d = (if do_close then session_close d else d)"

definition db_session_manager ::
  "bool \<Rightarrow> (('r, 'z) db_scheme \<Rightarrow> (py_exception + 'a) \<times> ('r, 'z) db_scheme)
     \<Rightarrow> ('r, 'z) db_scheme \<Rightarrow> (py_exception + 'a) \<times> ('r, 'z) db_scheme" where
  "db_session_manager do_close body d =
     (case body d of
        (Inr v, d1) \<Rightarrow> (Inr v, session_finally do_close d1)
      | (Inl e, d1) \<Rightarrow>
          if is_Exception e
          then (Inl e, session_finally do_close (session_rollback d1))
          else (Inl e, session_finally do_close d1))"

section \<open>Configuration, clock and identifiers\<close>

text \<open>
  \<^verbatim>\<open>current_app.config\<close>: the secret key, and the confirmation link timeout in minutes,
  which \<^verbatim>\<open>config.get\<close> gives as \<^verbatim>\<open>None\<close> when the key is absent. Time is the clock of
  \<^verbatim>\<open>time()\<close> in whole seconds; the fraction of a second is left out.
\<close>

record config =
  SECRET_KEY :: string
  CONFIRMATION_LINK_TIMEOUT :: "int option"

text \<open>
  What a column default can read when the persistence layer calls it: the clock and the
  next random identifier. \<^verbatim>\<open>get_uuid\<close> returns \<^verbatim>\<open>uuid4().hex\<close>.
\<close>

record env =
  now :: int
  uuid4_hex :: string

definition get_uuid :: "env \<Rightarrow> string" where
  "get_uuid e = uuid4_hex e"

definition datetime_now :: "env \<Rightarrow> int" where
  "datetime_now e = now e"

text \<open>
  A column's \<^verbatim>\<open>default\<close> or \<^verbatim>\<open>onupdate\<close> argument is either a value, used as it is for
  every row, or a callable, called by the persistence layer each time it needs the value.
\<close>

datatype 'a column_default = Scalar 'a | Callable "env \<Rightarrow> 'a"

fun column_value :: "'a column_default \<Rightarrow> env \<Rightarrow> 'a" where
  "column_value (Scalar v) e = v"
| "column_value (Callable f) e = f e"

section \<open>User\<close>

record user =
  user_uid :: string
  user_role_uid :: string
  first_name :: string
  last_name :: string
  email :: string
  hashed_password :: string
  user_active :: bool
  confirmed :: bool
  user_created :: int
  user_updated :: int

text \<open>
  The column arguments of \<^verbatim>\<open>User\<close> as the class body evaluates them, when the module is
  imported in the environment \<open>imp\<close>: \<^verbatim>\<open>default=get_uuid\<close> passes the function,
  \<^verbatim>\<open>default=datetime.now(tz=timezone.utc)\<close> and
  \<^verbatim>\<open>onupdate=datetime.now(tz=timezone.utc)\<close> pass the value of the call.
\<close>

definition user_uid_default :: "env \<Rightarrow> string column_default" where
  "user_uid_default imp = Callable get_uuid"

definition user_created_default :: "env \<Rightarrow> int column_default" where
  "user_created_default imp = Scalar (datetime_now imp)"

definition user_updated_default :: "env \<Rightarrow> int column_default" where
  "user_updated_default imp = Scalar (datetime_now imp)"

definition user_updated_onupdate :: "env \<Rightarrow> int column_default" where
  "user_updated_onupdate imp = Scalar (datetime_now imp)"

text \<open>
  An UPDATE of a user row that the caller has changed with \<open>change\<close> (which leaves
  \<^verbatim>\<open>updated\<close> alone), flushed in the environment \<open>e\<close>: the persistence layer sets
  \<^verbatim>\<open>updated\<close> from the column's \<^verbatim>\<open>onupdate\<close>.
\<close>

definition user_flush_update :: "env \<Rightarrow> env \<Rightarrow> (user \<Rightarrow> user) \<Rightarrow> user \<Rightarrow> user" where
  "user_flush_update imp e change u =
     (change u)\<lparr>user_updated := column_value (user_updated_onupdate imp) e\<rparr>"

definition get_id :: "user \<Rightarrow> string" where
  "get_id self = user_uid self"

subsection \<open>Password\<close>

text \<open>
  The \<^verbatim>\<open>password\<close> property: the getter raises, whatever the user holds.
\<close>

definition password_get :: "user \<Rightarrow> py_exception + string" where
  "password_get self = Inl (AttributeError ''user password can't be read'')"

text \<open>
  \<^verbatim>\<open>flask_bcrypt\<close> is not part of this repository. Its contract, as far as the two calls
  of this file use it: \<^verbatim>\<open>generate_password_hash\<close> refuses an empty password with a
  \<^verbatim>\<open>ValueError\<close>, draws a salt of 29 characters and returns \<^verbatim>\<open>bcrypt.hashpw\<close> of the
  password and the salt; \<^verbatim>\<open>hashpw\<close> reads the salt from the first 29 characters of its
  second argument, keys the hash with the first 72 bytes of the password only, and
  returns the salt followed by the digest; \<^verbatim>\<open>check_password_hash\<close> hashes the candidate
  with the stored hash as salt and compares. The key derivation itself is the parameter
  \<open>kdf\<close> (salt, key, digest); the salt drawn is the parameter \<open>salt\<close>.
\<close>

type_synonym kdf = "string \<Rightarrow> string \<Rightarrow> string"

definition bcrypt_hashpw :: "kdf \<Rightarrow> string \<Rightarrow> string \<Rightarrow> string" where
  "bcrypt_hashpw k password salt =
     take 29 salt @ k (take 29 salt) (take 72 password)"

definition generate_password_hash :: "kdf \<Rightarrow> string \<Rightarrow> string \<Rightarrow> py_exception + string" where
  "generate_password_hash k salt password =
     (if password = [] then Inl (ValueError ''Password must be non-empty.'')
      else Inr (bcrypt_hashpw k password salt))"

definition check_password_hash :: "kdf \<Rightarrow> string \<Rightarrow> string \<Rightarrow> bool" where
  "check_password_hash k pw_hash password = (bcrypt_hashpw k password pw_hash = pw_hash)"

definition password_set :: "kdf \<Rightarrow> string \<Rightarrow> user \<Rightarrow> string \<Rightarrow> py_exception + user" where
  "password_set k salt self password =
     (case generate_password_hash k salt password of
        Inl e \<Rightarrow> Inl e
      | Inr h \<Rightarrow> Inr (self\<lparr>hashed_password := h\<rparr>))"

definition verify_password :: "kdf \<Rightarrow> user \<Rightarrow> string \<Rightarrow> bool" where
  "verify_password k self password = check_password_hash k (hashed_password self) password"

subsection \<open>Confirmation tokens\<close>

text \<open>
  The payload of a token is a JSON value. \<^verbatim>\<open>data.get("confirm")\<close> is defined on a
  dictionary only (\<^verbatim>\<open>None\<close> for a missing key); any other value has no \<^verbatim>\<open>get\<close>.
\<close>

datatype json = JNull | JStr string | JNum int | JList "json list" | JDict "(string \<times> json) list"

fun json_get :: "json \<Rightarrow> string \<Rightarrow> py_exception + json" where
  "json_get (JDict kvs) key = Inr (case map_of kvs key of None \<Rightarrow> JNull | Some v \<Rightarrow> v)"
| "json_get _ key = Inl (AttributeError ''get'')"

text \<open>
  \<^verbatim>\<open>itsdangerous\<close> is not part of this repository. A token is either a text without a
  signature that any key verifies, or what \<^verbatim>\<open>URLSafeTimedSerializer(key).dumps\<close> made:
  the payload, the time of signing in seconds, and the key that signed it. \<^verbatim>\<open>loads\<close>
  with \<^verbatim>\<open>max_age\<close> raises \<^verbatim>\<open>BadSignature\<close> unless the serializer's key signed the token,
  and \<^verbatim>\<open>SignatureExpired\<close> when the age of the signature, in seconds, is more than
  \<^verbatim>\<open>max_age\<close> or negative.
\<close>

datatype token = Unsigned string | Signed string json int

definition serializer_dumps :: "string \<Rightarrow> int \<Rightarrow> json \<Rightarrow> token" where
  "serializer_dumps key t payload = Signed key payload t"

fun serializer_loads :: "string \<Rightarrow> int \<Rightarrow> token \<Rightarrow> int \<Rightarrow> py_exception + json" where
  "serializer_loads key t (Unsigned s) max_age = Inl BadSignature"
| "serializer_loads key t (Signed k payload ts) max_age =
     (if k \<noteq> key then Inl BadSignature
      else if t - ts > max_age then Inl SignatureExpired
      else if t - ts < 0 then Inl SignatureExpired
      else Inr payload)"

definition confirmation_token :: "config \<Rightarrow> int \<Rightarrow> user \<Rightarrow> token" where
  "confirmation_token cfg t self =
     serializer_dumps (SECRET_KEY cfg) t (JDict [(''confirm'', JStr (user_uid self))])"

text \<open>
  The state of \<^verbatim>\<open>confirm_token\<close>: the session over the user table and the user object
  \<^verbatim>\<open>self\<close>, which the method changes in place. Staging a user puts its row, found by
  \<^verbatim>\<open>user_uid\<close>, into the view.
\<close>

record user_scope = "user list db" +
  self_user :: user

definition stage_user :: "user \<Rightarrow> user list \<Rightarrow> user list" where
  "stage_user u rows =
     (if user_uid u \<in> set (map user_uid rows)
      then map (\<lambda>x. if user_uid x = user_uid u then u else x) rows
      else rows @ [u])"

text \<open>
  The body of the \<^verbatim>\<open>with\<close> block of \<^verbatim>\<open>confirm_token\<close>, run at time \<open>t\<close>.
  \<^verbatim>\<open>None * 60\<close> raises \<^verbatim>\<open>TypeError\<close>. The \<^verbatim>\<open>try\<close> meets \<^verbatim>\<open>SignatureExpired\<close> and
  \<^verbatim>\<open>BadSignature\<close> and no other exception.
\<close>

definition confirm_token_body ::
  "config \<Rightarrow> int \<Rightarrow> token \<Rightarrow> user_scope \<Rightarrow> (py_exception + bool) \<times> user_scope" where
  "confirm_token_body cfg t tok d =
     (case CONFIRMATION_LINK_TIMEOUT cfg of
        None \<Rightarrow> (Inl TypeError, d)
      | Some confirmation_link_timeout \<Rightarrow>
          let timeout = confirmation_link_timeout * 60 * 1000 in
          (case serializer_loads (SECRET_KEY cfg) t tok timeout of
             Inl e \<Rightarrow>
               if e = SignatureExpired \<or> e = BadSignature then (Inr False, d) else (Inl e, d)
           | Inr data \<Rightarrow>
               (case json_get data ''confirm'' of
                  Inl e \<Rightarrow>
                    if e = SignatureExpired \<or> e = BadSignature then (Inr False, d)
                    else (Inl e, d)
                | Inr c \<Rightarrow>
                    if c \<noteq> JStr (user_uid (self_user d)) then (Inr False, d)
                    else
                      let d1 = d\<lparr>self_user := (self_user d)\<lparr>confirmed := True\<rparr>\<rparr>;
                          d2 = session_add (UserRow (user_uid (self_user d1))) (stage_user (self_user d1)) d1
                      in (Inr True, d2))))"

definition confirm_token ::
  "config \<Rightarrow> int \<Rightarrow> token \<Rightarrow> user_scope \<Rightarrow> (py_exception + bool) \<times> user_scope" where
  "confirm_token cfg t tok d = db_session_manager True (confirm_token_body cfg t tok) d"

subsection \<open>Password reset tokens\<close>

text \<open>
  \<^verbatim>\<open>jwt\<close> (PyJWT) is not part of this repository. A token is either a text that does not
  decode, or what \<^verbatim>\<open>jwt.encode\<close> made: the claims, the key and the algorithm that signed
  them. \<^verbatim>\<open>jwt.decode\<close> with \<^verbatim>\<open>algorithms=["HS256"]\<close> raises unless the key and the
  algorithm are the ones that signed, and raises \<^verbatim>\<open>ExpiredSignatureError\<close> when the
  token carries an \<^verbatim>\<open>exp\<close> claim that is not later than the clock.
\<close>

record claims =
  reset_password :: "string option"
  exp :: "int option"

datatype jwt_token = Undecodable string | Jwt string string claims

definition jwt_encode :: "claims \<Rightarrow> string \<Rightarrow> string \<Rightarrow> jwt_token" where
  "jwt_encode payload key algorithm = Jwt key algorithm payload"

fun jwt_decode :: "int \<Rightarrow> jwt_token \<Rightarrow> string \<Rightarrow> string list \<Rightarrow> py_exception + claims" where
  "jwt_decode t (Undecodable s) key algorithms = Inl DecodeError"
| "jwt_decode t (Jwt k alg payload) key algorithms =
     (if alg \<notin> set algorithms then Inl InvalidSignatureError
      else if k \<noteq> key then Inl InvalidSignatureError
      else case exp payload of
             None \<Rightarrow> Inr payload
           | Some x \<Rightarrow> if x \<le> t then Inl ExpiredSignatureError else Inr payload)"

definition get_reset_token :: "config \<Rightarrow> int \<Rightarrow> user \<Rightarrow> int \<Rightarrow> jwt_token" where
  "get_reset_token cfg t self timeout =
     (let timeout = timeout * 60 in
      jwt_encode \<lparr>reset_password = Some (user_uid self), exp = Some (t + timeout)\<rparr>
        (SECRET_KEY cfg) ''HS256'')"

definition verify_reset_token :: "config \<Rightarrow> int \<Rightarrow> jwt_token \<Rightarrow> py_exception + string" where
  "verify_reset_token cfg t tok =
     (case jwt_decode t tok (SECRET_KEY cfg) [''HS256''] of
        Inl e \<Rightarrow> Inl e
      | Inr payload \<Rightarrow>
          (case reset_password payload of
             None \<Rightarrow> Inl (KeyError ''reset_password'')
           | Some uid \<Rightarrow> Inr uid))"

section \<open>Role\<close>

text \<open>
  \<^verbatim>\<open>Role.Permissions\<close> is an \<^verbatim>\<open>enum.Flag\<close>; \<^verbatim>\<open>auto()\<close> gives its members the values
  1, 2 and 4 in the order of the class body, and \<^verbatim>\<open>|\<close> is the bitwise or of the
  values.
\<close>

datatype permission = REGISTERED | EDITOR | ADMINISTRATOR

fun permission_value :: "permission \<Rightarrow> int" where
  "permission_value REGISTERED = 1"
| "permission_value EDITOR = 2"
| "permission_value ADMINISTRATOR = 4"

record role =
  role_uid :: string
  role_name :: string
  description :: string
  raw_permissions :: int
  role_active :: bool
  role_created :: int
  role_updated :: int

definition role_uid_default :: "env \<Rightarrow> string column_default" where
  "role_uid_default imp = Callable get_uuid"

definition role_active_default :: "env \<Rightarrow> bool column_default" where
  "role_active_default imp = Scalar True"

definition role_created_default :: "env \<Rightarrow> int column_default" where
  "role_created_default imp = Scalar (datetime_now imp)"

definition role_updated_default :: "env \<Rightarrow> int column_default" where
  "role_updated_default imp = Scalar (datetime_now imp)"

definition role_updated_onupdate :: "env \<Rightarrow> int column_default" where
  "role_updated_onupdate imp = Scalar (datetime_now imp)"

text \<open>
  An INSERT of \<^verbatim>\<open>Role(name=..., description=..., raw_permissions=...)\<close> flushed in the
  environment \<open>e\<close> takes the other columns from their defaults; an UPDATE of a role row
  sets \<^verbatim>\<open>updated\<close> from the column's \<^verbatim>\<open>onupdate\<close>.
\<close>

definition role_flush_insert :: "env \<Rightarrow> env \<Rightarrow> string \<Rightarrow> string \<Rightarrow> int \<Rightarrow> role" where
  "role_flush_insert imp e n desc perms =
     \<lparr>role_uid = column_value (role_uid_default imp) e,
      role_name = n,
      description = desc,
      raw_permissions = perms,
      role_active = column_value (role_active_default imp) e,
      role_created = column_value (role_created_default imp) e,
      role_updated = column_value (role_updated_default imp) e\<rparr>"

definition role_flush_update :: "env \<Rightarrow> env \<Rightarrow> (role \<Rightarrow> role) \<Rightarrow> role \<Rightarrow> role" where
  "role_flush_update imp e change r =
     (change r)\<lparr>role_updated := column_value (role_updated_onupdate imp) e\<rparr>"

record role_def =
  def_name :: string
  def_description :: string
  def_raw_permissions :: int

definition roles :: "role_def list" where
  "roles =
     [\<lparr>def_name = ''user'',
       def_description = ''registered user permission'',
       def_raw_permissions = permission_value REGISTERED\<rparr>,
      \<lparr>def_name = ''editor'',
       def_description = ''user has ability to edit all content and comments'',
       def_raw_permissions = permission_value REGISTERED OR permission_value EDITOR\<rparr>,
      \<lparr>def_name = ''admin'',
       def_description = ''administrator user with access to all of the application'',
       def_raw_permissions =
         permission_value REGISTERED OR permission_value EDITOR
           OR permission_value ADMINISTRATOR\<rparr>]"

text \<open>
  The state of \<^verbatim>\<open>initialize_role_table\<close>: the session over the role table, the clock,
  and the identifiers that \<^verbatim>\<open>uuid4\<close> will draw, of which \<open>uuid_count\<close> are used.
\<close>

record role_scope = "role list db" +
  clock :: int
  uuid_source :: "nat \<Rightarrow> string"
  uuid_count :: nat

definition scope_env :: "role_scope \<Rightarrow> env" where
  "scope_env d = \<lparr>now = clock d, uuid4_hex = uuid_source d (uuid_count d)\<rparr>"

text \<open>
  \<^verbatim>\<open>query(Role).filter(Role.name == n).one_or_none()\<close>: no row, the one row, or
  \<^verbatim>\<open>MultipleResultsFound\<close>.
\<close>

definition one_or_none :: "role list \<Rightarrow> string \<Rightarrow> py_exception + role option" where
  "one_or_none rows n =
     (case filter (\<lambda>x. role_name x = n) rows of
        [] \<Rightarrow> Inr None
      | [x] \<Rightarrow> Inr (Some x)
      | _ \<Rightarrow> Inl MultipleResultsFound)"

text \<open>
  One turn of the loop of \<^verbatim>\<open>initialize_role_table\<close>. A new role reaches the view with
  the columns of its INSERT; a role that is there is changed in place, and its row is
  written again only when one of the two columns differs.
\<close>

definition upsert_role :: "env \<Rightarrow> role_def \<Rightarrow> role_scope \<Rightarrow> (py_exception + unit) \<times> role_scope" where
  "upsert_role imp r d =
     (case one_or_none (view d) (def_name r) of
        Inl e \<Rightarrow> (Inl e, d)
      | Inr None \<Rightarrow>
          let new = role_flush_insert imp (scope_env d)
                      (def_name r) (def_description r) (def_raw_permissions r);
              d1 = d\<lparr>uuid_count := Suc (uuid_count d)\<rparr>
          in (Inr (), session_add (RoleRow (def_name r)) (\<lambda>rows. rows @ [new]) d1)
      | Inr (Some x) \<Rightarrow>
          let change = (\<lambda>y. y\<lparr>description := def_description r,
                               raw_permissions := def_raw_permissions r\<rparr>);
              x1 = (if change x = x then x else role_flush_update imp (scope_env d) change x)
          in (Inr (),
              session_add (RoleRow (def_name r))
                (map (\<lambda>y. if role_name y = def_name r then x1 else y)) d))"

fun upsert_roles :: "env \<Rightarrow> role_def list \<Rightarrow> role_scope \<Rightarrow> (py_exception + unit) \<times> role_scope" where
  "upsert_roles imp [] d = (Inr (), d)"
| "upsert_roles imp (r # rs) d =
     (case upsert_role imp r d of
        (Inl e, d1) \<Rightarrow> (Inl e, d1)
      | (Inr u, d1) \<Rightarrow> upsert_roles imp rs d1)"

definition initialize_role_table_body ::
  "env \<Rightarrow> role_scope \<Rightarrow> (py_exception + unit) \<times> role_scope" where
  "initialize_role_table_body imp d =
     (case upsert_roles imp roles d of
        (Inl e, d1) \<Rightarrow> (Inl e, d1)
      | (Inr u, d1) \<Rightarrow> (Inr (), session_commit d1))"

definition initialize_role_table ::
  "env \<Rightarrow> role_scope \<Rightarrow> (py_exception + unit) \<times> role_scope" where
  "initialize_role_table imp d = db_session_manager True (initialize_role_table_body imp) d"

text \<open>The bits of \<open>a\<close> are bits of \<open>b\<close>, and \<open>b\<close> has a bit more.\<close>

definition strict_bit_subset :: "int \<Rightarrow> int \<Rightarrow> bool" where
  "strict_bit_subset a b = (a AND b = a \<and> a \<noteq> b)"

section \<open>Properties that the specification names\<close>






section \<open>Sample inputs\<close>

definition raising ::
  "py_exception \<Rightarrow> ('r, 'z) db_scheme \<Rightarrow> (py_exception + unit) \<times> ('r, 'z) db_scheme" where
  "raising e d = (Inl e, d)"

definition empty_db :: "unit db" where
  "empty_db = \<lparr>session = [], view = (), stored = ()\<rparr>"

definition sample_user :: user where
  "sample_user =
     \<lparr>user_uid = ''u1'', user_role_uid = ''r1'', first_name = ''Ann'', last_name = ''Lee'',
      email = ''ann@example.org'', hashed_password = [], user_active = True,
      confirmed = False, user_created = 0, user_updated = 0\<rparr>"

definition sample_config :: config where
  "sample_config = \<lparr>SECRET_KEY = ''secret'', CONFIRMATION_LINK_TIMEOUT = Some 1\<rparr>"

definition config_without_timeout :: config where
  "config_without_timeout = \<lparr>SECRET_KEY = ''secret'', CONFIRMATION_LINK_TIMEOUT = None\<rparr>"

definition sample_scope :: user_scope where
  "sample_scope =
     \<lparr>session = [], view = [sample_user], stored = [sample_user], self_user = sample_user\<rparr>"

definition import_env :: env where
  "import_env = \<lparr>now = 100, uuid4_hex = ''a0''\<rparr>"

definition later_env :: env where
  "later_env = \<lparr>now = 200, uuid4_hex = ''a1''\<rparr>"

definition confirm_user :: "user \<Rightarrow> user" where
  "confirm_user u = u\<lparr>confirmed := True\<rparr>"

definition sample_salt :: string where
  "sample_salt = replicate 29 CHR ''s''"

definition long_password :: "char \<Rightarrow> string" where
  "long_password c = replicate 72 CHR ''a'' @ [c]"

definition sample_kdf :: kdf where
  "sample_kdf salt key = rev key"

section \<open>The role table as the specification describes it\<close>

text \<open>
  The upsert as the specification words it: look the role up by its unique name; if it is
  absent, insert a new row with a fresh identifier; if it is present, overwrite
  \<^verbatim>\<open>description\<close> and \<^verbatim>\<open>raw_permissions\<close> in place. \<open>upsert_state\<close> is the state that
  one turn of the loop leaves, \<open>canonical\<close> says that a row with the name of a role
  definition has the description and the permissions of that definition.
\<close>

definition overwrite :: "env \<Rightarrow> env \<Rightarrow> role_def \<Rightarrow> role \<Rightarrow> role" where
  "overwrite imp e r x =
     (if description x = def_description r \<and> raw_permissions x = def_raw_permissions r then x
      else x\<lparr>description := def_description r, raw_permissions := def_raw_permissions r,
             role_updated := now imp\<rparr>)"

definition upsert_rows :: "env \<Rightarrow> env \<Rightarrow> role_def \<Rightarrow> role list \<Rightarrow> role list" where
  "upsert_rows imp e r rows =
     (if def_name r \<in> set (map role_name rows)
      then map (\<lambda>y. if role_name y = def_name r then overwrite imp e r y else y) rows
      else rows @ [role_flush_insert imp e (def_name r) (def_description r) (def_raw_permissions r)])"

definition upsert_state :: "env \<Rightarrow> role_def \<Rightarrow> role_scope \<Rightarrow> role_scope" where
  "upsert_state imp r d =
     d\<lparr>session := session d @ [Add (RoleRow (def_name r))],
       view := upsert_rows imp (scope_env d) r (view d),
       uuid_count := (if def_name r \<in> set (map role_name (view d)) then uuid_count d
                      else Suc (uuid_count d))\<rparr>"

definition canonical :: "role_def \<Rightarrow> role \<Rightarrow> bool" where
  "canonical r x =
     (role_name x = def_name r \<longrightarrow>
      description x = def_description r \<and> raw_permissions x = def_raw_permissions r)"

text \<open>Role tables to run the initialisation on: an empty one, and one with an altered role.\<close>

definition sample_uuid :: "nat \<Rightarrow> string" where
  "sample_uuid n = ''id'' @ replicate n CHR ''x''"

definition empty_role_scope :: role_scope where
  "empty_role_scope =
     \<lparr>session = [], view = [], stored = [], clock = 500, uuid_source = sample_uuid,
      uuid_count = 0\<rparr>"

definition altered_roles :: "role list" where
  "altered_roles =
     [\<lparr>role_uid = ''r1'', role_name = ''user'', description = ''registered user permission'',
       raw_permissions = 1, role_active = True, role_created = 7, role_updated = 7\<rparr>,
      \<lparr>role_uid = ''r2'', role_name = ''editor'', description = ''altered'',
       raw_permissions = 7, role_active = True, role_created = 7, role_updated = 7\<rparr>]"

definition altered_role_scope :: role_scope where
  "altered_role_scope =
     \<lparr>session = [], view = altered_roles, stored = altered_roles, clock = 500,
      uuid_source = sample_uuid, uuid_count = 0\<rparr>"

section \<open>The session scope\<close>

lemma db_session_manager_returns:
  "body d = (Inr v, d1) \<Longrightarrow>
   db_session_manager c body d = (Inr v, session_finally c d1)"
  by (simp add: db_session_manager_def)

lemma db_session_manager_raises:
  "body d = (Inl e, d1) \<Longrightarrow> is_Exception e \<Longrightarrow>
   db_session_manager c body d = (Inl e, session_finally c (session_rollback d1))"
  by (simp add: db_session_manager_def)

lemma db_session_manager_base_raises:
  "body d = (Inl e, d1) \<Longrightarrow> \<not> is_Exception e \<Longrightarrow>
   db_session_manager c body d = (Inl e, session_finally c d1)"
  by (simp add: db_session_manager_def)

lemmas session_ops = session_add_def session_commit_def session_rollback_def
  session_close_def session_finally_def

text \<open>
  C6, as amended. Whatever the body does, its value or its exception leaves the scope
  unchanged; the session is rolled back exactly when the body raised an exception derived
  from \<^verbatim>\<open>Exception\<close>; it is closed, after that, exactly when \<^verbatim>\<open>session_close\<close> is true;
  nothing is committed by the scope.
\<close>

theorem db_session_manager_scope:
  "fst (db_session_manager c body d) = fst (body d) \<and>
   session (snd (db_session_manager c body d)) =
     session (snd (body d))
       @ (case fst (body d) of
            Inl e \<Rightarrow> if is_Exception e then [Rollback] else []
          | Inr v \<Rightarrow> [])
       @ (if c then [Close] else []) \<and>
   stored (snd (db_session_manager c body d)) = stored (snd (body d))"
  by (cases "body d"; cases "fst (body d)") (auto simp: db_session_manager_def session_ops)

theorem db_session_manager_scope_witness:
  "db_session_manager True (raising (ValueError ''x'')) empty_db =
     (Inl (ValueError ''x''), \<lparr>session = [Rollback, Close], view = (), stored = ()\<rparr>)"
  using db_session_manager_scope [of True "raising (ValueError ''x'')" empty_db]
  by (simp add: raising_def empty_db_def db_session_manager_def session_ops)

text \<open>
  A body that raises \<^verbatim>\<open>KeyboardInterrupt\<close> leaves the scope without a rollback: the
  session is closed only.
\<close>

theorem db_session_manager_counterexample:
  "db_session_manager True (raising KeyboardInterrupt) empty_db =
     (Inl KeyboardInterrupt, \<lparr>session = [Close], view = (), stored = ()\<rparr>)"
  by (simp add: raising_def empty_db_def db_session_manager_def session_ops)

section \<open>Identity and password\<close>

text \<open>
  C9. \<^verbatim>\<open>get_id\<close> returns the \<^verbatim>\<open>user_uid\<close> field, and a change of the other fields that
  the methods of the class write does not change it.
\<close>

theorem get_id_user_uid:
  "get_id self = user_uid self \<and>
   get_id (self\<lparr>hashed_password := h, confirmed := c, user_updated := t\<rparr>) = get_id self"
  by (simp add: get_id_def)

text \<open>
  C7. Reading \<^verbatim>\<open>password\<close> raises \<^verbatim>\<open>AttributeError\<close> for every user, also for the user
  that an assignment to \<^verbatim>\<open>password\<close> leaves; it returns no value.
\<close>

theorem password_get_raises:
  "password_get self = Inl (AttributeError ''user password can't be read'') \<and>
   (\<forall>v. password_get self \<noteq> Inr v) \<and>
   (case password_set k salt self p of
      Inl e \<Rightarrow> password_get self
    | Inr u \<Rightarrow> password_get u) = Inl (AttributeError ''user password can't be read'')"
  by (simp add: password_get_def split: sum.splits)

lemma hashpw_salt:
  "length salt = 29 \<Longrightarrow>
   bcrypt_hashpw k q (bcrypt_hashpw k p salt) = salt @ k salt (take 72 q)"
  by (simp add: bcrypt_hashpw_def)

text \<open>
  C2, as amended. Assigning the empty string to \<^verbatim>\<open>password\<close> raises \<^verbatim>\<open>ValueError\<close> and
  leaves no new user. After a non-empty password \<open>p\<close> is assigned, the stored hash is the
  salt followed by the digest of the first 72 bytes of \<open>p\<close>, \<^verbatim>\<open>verify_password\<close> accepts
  \<open>p\<close>, and it accepts a candidate \<open>q\<close> exactly when the first 72 bytes of \<open>q\<close> hash,
  with the stored salt, to what the first 72 bytes of \<open>p\<close> hash to; so it accepts every
  \<open>q\<close> that has the first 72 bytes of \<open>p\<close>. \<^verbatim>\<open>verify_password\<close> returns a truth
  value and changes nothing.
\<close>

theorem password_roundtrip:
  "password_set k salt self [] = Inl (ValueError ''Password must be non-empty.'') \<and>
   (length salt = 29 \<and> p \<noteq> [] \<longrightarrow>
      (\<exists>u. password_set k salt self p = Inr u \<and>
           u = self\<lparr>hashed_password := salt @ k salt (take 72 p)\<rparr> \<and>
           verify_password k u p \<and>
           (\<forall>q. verify_password k u q = (k salt (take 72 q) = k salt (take 72 p))) \<and>
           (\<forall>q. take 72 q = take 72 p \<longrightarrow> verify_password k u q)))"
  by (simp add: password_set_def generate_password_hash_def verify_password_def
      check_password_hash_def bcrypt_hashpw_def)

theorem password_roundtrip_witness:
  "password_set sample_kdf sample_salt sample_user [] =
     Inl (ValueError ''Password must be non-empty.'') \<and>
   password_set sample_kdf sample_salt sample_user ''pw'' =
     Inr (sample_user\<lparr>hashed_password := sample_salt @ sample_kdf sample_salt ''pw''\<rparr>) \<and>
   verify_password sample_kdf
     (sample_user\<lparr>hashed_password := sample_salt @ sample_kdf sample_salt ''pw''\<rparr>) ''pw'' \<and>
   \<not> verify_password sample_kdf
     (sample_user\<lparr>hashed_password := sample_salt @ sample_kdf sample_salt ''pw''\<rparr>) ''pW''"
  using password_roundtrip [of sample_kdf sample_salt sample_user "''pw''"]
  by (simp add: sample_salt_def sample_kdf_def)

text \<open>
  Whatever the key derivation is, the empty password cannot be assigned, and two different
  passwords of 73 bytes with the same first 72 bytes verify against each other.
\<close>

theorem verify_password_counterexample:
  "\<not> (\<exists>k. \<forall>salt self p. length salt = 29 \<longrightarrow>
          (\<exists>u. password_set k salt self p = Inr u \<and> verify_password k u p)) \<and>
   \<not> (\<exists>k. \<forall>salt self p q u. length salt = 29 \<longrightarrow> password_set k salt self p = Inr u \<longrightarrow>
          q \<noteq> p \<longrightarrow> \<not> verify_password k u q)"
proof
  have "password_set k sample_salt sample_user [] \<noteq> Inr u" for k u
    by (simp add: password_set_def generate_password_hash_def)
  moreover have "length sample_salt = 29"
    by (simp add: sample_salt_def)
  ultimately show "\<not> (\<exists>k. \<forall>salt self p. length salt = 29 \<longrightarrow>
          (\<exists>u. password_set k salt self p = Inr u \<and> verify_password k u p))"
    by blast
next
  let ?p = "long_password CHR ''b''" and ?q = "long_password CHR ''c''"
  have len: "length sample_salt = 29"
    by (simp add: sample_salt_def)
  have ne: "?q \<noteq> ?p"
    by (simp add: long_password_def)
  have set: "password_set k sample_salt sample_user ?p =
      Inr (sample_user\<lparr>hashed_password := bcrypt_hashpw k ?p sample_salt\<rparr>)" for k
    by (simp add: password_set_def generate_password_hash_def long_password_def)
  have ok: "verify_password k (sample_user\<lparr>hashed_password := bcrypt_hashpw k ?p sample_salt\<rparr>) ?q"
    for k
    by (simp add: verify_password_def check_password_hash_def hashpw_salt [OF len])
      (simp add: bcrypt_hashpw_def long_password_def sample_salt_def)
  show "\<not> (\<exists>k. \<forall>salt self p q u. length salt = 29 \<longrightarrow> password_set k salt self p = Inr u \<longrightarrow>
          q \<noteq> p \<longrightarrow> \<not> verify_password k u q)"
    using len ne set ok by blast
qed

section \<open>Confirmation tokens\<close>

lemma own_token_accepted:
  assumes "CONFIRMATION_LINK_TIMEOUT cfg = Some m" "0 \<le> t - t0" "t - t0 \<le> m * 60 * 1000"
  shows "confirm_token cfg t (confirmation_token cfg t0 (self_user d)) d =
     (Inr True,
      d\<lparr>self_user := (self_user d)\<lparr>confirmed := True\<rparr>,
        session := session d @ [Add (UserRow (user_uid (self_user d))), Close],
        view := stored d\<rparr>)"
  using assms
  by (simp add: confirm_token_def confirm_token_body_def db_session_manager_def session_ops
      confirmation_token_def serializer_dumps_def Let_def)

text \<open>
  C1. With a timeout of one minute, a token that is an hour old is accepted: the maximal
  age handed to the verifier is 60000, and the verifier counts seconds.
\<close>

theorem confirm_token_stale_accepted:
  "confirm_token sample_config 3600 (confirmation_token sample_config 0 sample_user)
     sample_scope =
     (Inr True,
      sample_scope\<lparr>self_user := sample_user\<lparr>confirmed := True\<rparr>,
        session := [Add (UserRow ''u1''), Close]\<rparr>)"
  by (simp add: confirm_token_def confirm_token_body_def db_session_manager_def session_ops
      confirmation_token_def serializer_dumps_def Let_def sample_config_def sample_scope_def
      sample_user_def)

text \<open>
  C10. Without \<^verbatim>\<open>CONFIRMATION_LINK_TIMEOUT\<close> in the configuration, \<^verbatim>\<open>confirm_token\<close>
  raises \<^verbatim>\<open>TypeError\<close> for every token, before the token is looked at; the scope rolls
  the session back and closes it, and the user is unchanged.
\<close>

theorem confirm_token_no_timeout:
  "CONFIRMATION_LINK_TIMEOUT cfg = None \<Longrightarrow>
   confirm_token cfg t tok d =
     (Inl TypeError, d\<lparr>session := session d @ [Rollback, Close], view := stored d\<rparr>)"
  by (simp add: confirm_token_def confirm_token_body_def db_session_manager_def session_ops)

theorem confirm_token_no_timeout_witness:
  "confirm_token config_without_timeout 5 (Unsigned ''abc'') sample_scope =
     (Inl TypeError, sample_scope\<lparr>session := [Rollback, Close]\<rparr>)"
  using confirm_token_no_timeout [of config_without_timeout 5 "Unsigned ''abc''" sample_scope]
  by (simp add: config_without_timeout_def sample_scope_def)





section \<open>Password reset tokens\<close>

text \<open>
  C4. A reset token made at time \<open>t0\<close> with a timeout of \<open>timeout\<close> minutes verifies to
  the user's \<^verbatim>\<open>user_uid\<close> at every time \<open>t\<close> less than \<open>timeout * 60\<close> seconds after
  \<open>t0\<close>; more than \<open>timeout * 60\<close> seconds after \<open>t0\<close> the verification raises; it
  raises on a token signed with another key and on a text that does not decode.
\<close>

theorem reset_token_window:
  "(t - t0 < timeout * 60 \<longrightarrow>
      verify_reset_token cfg t (get_reset_token cfg t0 self timeout) = Inr (user_uid self)) \<and>
   (t - t0 > timeout * 60 \<longrightarrow>
      verify_reset_token cfg t (get_reset_token cfg t0 self timeout) =
        Inl ExpiredSignatureError) \<and>
   (key \<noteq> SECRET_KEY cfg \<longrightarrow>
      verify_reset_token cfg t (Jwt key alg payload) = Inl InvalidSignatureError) \<and>
   verify_reset_token cfg t (Undecodable s) = Inl DecodeError"
  by (auto simp: verify_reset_token_def get_reset_token_def jwt_encode_def Let_def)

theorem reset_token_window_witness:
  "verify_reset_token sample_config 599 (get_reset_token sample_config 0 sample_user 10) =
     Inr ''u1'' \<and>
   verify_reset_token sample_config 601 (get_reset_token sample_config 0 sample_user 10) =
     Inl ExpiredSignatureError \<and>
   verify_reset_token sample_config 5
     (Jwt ''guess'' ''HS256'' \<lparr>reset_password = Some ''u1'', exp = Some 600\<rparr>) =
     Inl InvalidSignatureError"
  using reset_token_window [of 599 0 10 sample_config sample_user]
    reset_token_window [of 601 0 10 sample_config sample_user]
    reset_token_window [of 5 0 10 sample_config sample_user "''guess''" "''HS256''"
      "\<lparr>reset_password = Some ''u1'', exp = Some 600\<rparr>"]
  by (simp add: sample_config_def sample_user_def)

section \<open>Timestamps\<close>

lemma updated_is_import_time:
  "user_updated (user_flush_update imp e change u) = now imp"
  "role_updated (role_flush_update imp e change' r) = now imp"
  by (simp_all add: user_flush_update_def role_flush_update_def user_updated_onupdate_def
      role_updated_onupdate_def datetime_now_def)

text \<open>
  C8. The module is imported at time 100; a user row is changed and flushed at time 200.
  The \<^verbatim>\<open>updated\<close> column of the row is 100, the time of the import, and so it is for a
  role row.
\<close>

theorem updated_not_refreshed:
  "now later_env = 200 \<and>
   user_updated (user_flush_update import_env later_env confirm_user sample_user) = 100 \<and>
   role_updated (role_flush_update import_env later_env change r) = 100"
  by (simp add: updated_is_import_time import_env_def later_env_def)

section \<open>The role table\<close>

lemma filter_unique:
  "distinct (map role_name rows) \<Longrightarrow>
   filter (\<lambda>x. role_name x = n) rows =
     (case find (\<lambda>x. role_name x = n) rows of None \<Rightarrow> [] | Some x \<Rightarrow> [x])"
proof (induction rows)
  case Nil
  then show ?case by simp
next
  case (Cons a rows)
  show ?case
  proof (cases "role_name a = n")
    case True
    with Cons.prems have "n \<notin> role_name ` set rows" by auto
    then have "filter (\<lambda>x. role_name x = n) rows = []"
      by (auto simp: filter_empty_conv)
    with True show ?thesis by simp
  next
    case False
    with Cons show ?thesis by simp
  qed
qed

lemma one_or_none_distinct:
  "distinct (map role_name rows) \<Longrightarrow>
   one_or_none rows n = Inr (find (\<lambda>x. role_name x = n) rows)"
  by (simp add: one_or_none_def filter_unique split: option.splits)

lemma find_name_None: "find (\<lambda>x. role_name x = n) rows = None \<longleftrightarrow> n \<notin> role_name ` set rows"
  by (auto simp: find_None_iff)

lemma find_name_unique:
  assumes "distinct (map role_name rows)" "find (\<lambda>x. role_name x = n) rows = Some x"
    "y \<in> set rows" "role_name y = n"
  shows "y = x"
proof -
  from assms(2) have "x \<in> set rows" "role_name x = n"
    by (auto simp: find_Some_iff)
  moreover from assms(1) have "inj_on role_name (set rows)"
    by (simp add: distinct_map)
  ultimately show ?thesis using assms(3,4) by (auto dest: inj_onD)
qed

lemma change_eq:
  "(x\<lparr>description := a, raw_permissions := b\<rparr> = x) = (description x = a \<and> raw_permissions x = b)"
  by (cases x) auto

lemma map_unique:
  "\<forall>y\<in>set rows. role_name y = n \<longrightarrow> y = x \<Longrightarrow>
   map (\<lambda>y. if role_name y = n then f x else y) rows =
   map (\<lambda>y. if role_name y = n then f y else y) rows"
  by (induction rows) auto

lemma upsert_role_step:
  assumes "distinct (map role_name (view d))"
  shows "upsert_role imp r d = (Inr (), upsert_state imp r d)"
proof (cases "find (\<lambda>x. role_name x = def_name r) (view d)")
  case None
  then have "def_name r \<notin> role_name ` set (view d)"
    by (simp add: find_name_None)
  with None assms show ?thesis
    by (simp add: upsert_role_def one_or_none_distinct upsert_rows_def upsert_state_def
        session_add_def Let_def)
next
  case (Some x)
  then have mem: "def_name r \<in> role_name ` set (view d)"
    using find_name_None [of "def_name r" "view d"] by simp
  have uniq: "\<forall>y\<in>set (view d). role_name y = def_name r \<longrightarrow> y = x"
    using find_name_unique [OF assms Some] by blast
  have "upsert_role imp r d =
      (Inr (), session_add (RoleRow (def_name r))
         (map (\<lambda>y. if role_name y = def_name r then overwrite imp (scope_env d) r x else y)) d)"
    unfolding upsert_role_def one_or_none_distinct [OF assms] Some Let_def
    by (simp add: overwrite_def change_eq role_flush_update_def role_updated_onupdate_def
        datetime_now_def cong: if_cong)
  also have "\<dots> = (Inr (), session_add (RoleRow (def_name r))
         (map (\<lambda>y. if role_name y = def_name r then overwrite imp (scope_env d) r y else y)) d)"
    by (simp add: session_add_def map_unique [OF uniq])
  finally show ?thesis
    using mem by (simp add: session_add_def upsert_rows_def upsert_state_def)
qed


lemma upsert_state_simps:
  "session (upsert_state imp r d) = session d @ [Add (RoleRow (def_name r))]"
  "view (upsert_state imp r d) = upsert_rows imp (scope_env d) r (view d)"
  "stored (upsert_state imp r d) = stored d"
  by (simp_all add: upsert_state_def)

lemma overwrite_keeps:
  "role_name (overwrite imp e r y) = role_name y"
  "role_uid (overwrite imp e r y) = role_uid y"
  by (simp_all add: overwrite_def)

lemma overwrite_canonical:
  "description (overwrite imp e r y) = def_description r"
  "raw_permissions (overwrite imp e r y) = def_raw_permissions r"
  by (simp_all add: overwrite_def)

lemma upsert_rows_names:
  "map role_name (upsert_rows imp e r rows) =
     (if def_name r \<in> set (map role_name rows) then map role_name rows
      else map role_name rows @ [def_name r])"
  by (auto simp: upsert_rows_def role_flush_insert_def overwrite_keeps)

lemma upsert_rows_uids:
  "take (length rows) (map role_uid (upsert_rows imp e r rows)) = map role_uid rows"
  by (auto simp: upsert_rows_def overwrite_keeps)

lemma upsert_rows_length: "length rows \<le> length (upsert_rows imp e r rows)"
  by (simp add: upsert_rows_def)

lemma upsert_rows_canonical:
  "x \<in> set (upsert_rows imp e r rows) \<Longrightarrow> canonical r x"
proof (cases "def_name r \<in> set (map role_name rows)")
  case True
  assume "x \<in> set (upsert_rows imp e r rows)"
  with True show ?thesis
    by (auto simp: upsert_rows_def canonical_def overwrite_canonical split: if_splits)
next
  case False
  assume "x \<in> set (upsert_rows imp e r rows)"
  with False have "x \<in> set rows \<or>
      x = role_flush_insert imp e (def_name r) (def_description r) (def_raw_permissions r)"
    by (auto simp: upsert_rows_def)
  then show ?thesis
  proof
    assume "x \<in> set rows"
    with False have "role_name x \<noteq> def_name r" by force
    then show ?thesis by (simp add: canonical_def)
  next
    assume "x = role_flush_insert imp e (def_name r) (def_description r) (def_raw_permissions r)"
    then show ?thesis by (simp add: canonical_def role_flush_insert_def)
  qed
qed

lemma upsert_rows_others:
  "x \<in> set (upsert_rows imp e r rows) \<Longrightarrow> role_name x \<noteq> def_name r \<Longrightarrow> x \<in> set rows"
  by (auto simp: upsert_rows_def role_flush_insert_def overwrite_keeps split: if_splits)

lemma upsert_rows_fixed:
  "def_name r \<in> set (map role_name rows) \<Longrightarrow> \<forall>x\<in>set rows. canonical r x \<Longrightarrow>
   upsert_rows imp e r rows = rows"
  by (auto simp: upsert_rows_def canonical_def overwrite_def intro: map_idI)

lemma upsert_rows_distinct:
  "distinct (map role_name rows) \<Longrightarrow> distinct (map role_name (upsert_rows imp e r rows))"
  by (simp add: upsert_rows_names)


lemma upsert_roles_Cons:
  "distinct (map role_name (view d)) \<Longrightarrow>
   upsert_roles imp (r # rs) d = upsert_roles imp rs (upsert_state imp r d)"
  by (simp add: upsert_role_step)

lemma upsert_state_distinct:
  "distinct (map role_name (view d)) \<Longrightarrow> distinct (map role_name (view (upsert_state imp r d)))"
  by (simp add: upsert_state_simps upsert_rows_distinct)

lemma upsert_roles_returns:
  "distinct (map role_name (view d)) \<Longrightarrow> fst (upsert_roles imp rs d) = Inr ()"
proof (induction rs arbitrary: d)
  case Nil
  then show ?case by simp
next
  case (Cons r rs)
  from Cons.IH [OF upsert_state_distinct [OF Cons.prems]] show ?case
    unfolding upsert_roles_Cons [OF Cons.prems] .
qed

lemma upsert_roles_session:
  "distinct (map role_name (view d)) \<Longrightarrow>
   session (snd (upsert_roles imp rs d)) = session d @ map (\<lambda>r. Add (RoleRow (def_name r))) rs \<and>
   stored (snd (upsert_roles imp rs d)) = stored d"
proof (induction rs arbitrary: d)
  case Nil
  then show ?case by simp
next
  case (Cons r rs)
  from Cons.prems have "distinct (map role_name (view (upsert_state imp r d)))"
    by (rule upsert_state_distinct)
  from Cons.IH [OF this] show ?case
    unfolding upsert_roles_Cons [OF Cons.prems] by (simp add: upsert_state_simps)
qed

lemma upsert_roles_names:
  "distinct (map role_name (view d)) \<Longrightarrow>
   distinct (map role_name (view (snd (upsert_roles imp rs d)))) \<and>
   set (map role_name (view (snd (upsert_roles imp rs d)))) =
     set (map role_name (view d)) \<union> set (map def_name rs)"
proof (induction rs arbitrary: d)
  case Nil
  then show ?case by simp
next
  case (Cons r rs)
  from Cons.prems have dist: "distinct (map role_name (view (upsert_state imp r d)))"
    by (rule upsert_state_distinct)
  have "set (map role_name (view (upsert_state imp r d))) =
      insert (def_name r) (set (map role_name (view d)))"
    by (auto simp: upsert_state_simps upsert_rows_names)
  with Cons.IH [OF dist] show ?case
    unfolding upsert_roles_Cons [OF Cons.prems] by simp
qed

lemma upsert_roles_prefix:
  "distinct (map role_name (view d)) \<Longrightarrow>
   take (length (view d)) (map role_uid (view (snd (upsert_roles imp rs d)))) =
     map role_uid (view d) \<and>
   take (length (view d)) (map role_name (view (snd (upsert_roles imp rs d)))) =
     map role_name (view d)"
proof (induction rs arbitrary: d)
  case Nil
  then show ?case by simp
next
  case (Cons r rs)
  let ?d1 = "upsert_state imp r d"
  let ?v = "view (snd (upsert_roles imp rs ?d1))"
  from Cons.prems have dist: "distinct (map role_name (view ?d1))"
    by (rule upsert_state_distinct)
  have le: "length (view d) \<le> length (view ?d1)"
    by (simp add: upsert_state_simps upsert_rows_length)
  have u1: "take (length (view d)) (map role_uid (view ?d1)) = map role_uid (view d)"
    by (simp add: upsert_state_simps upsert_rows_uids)
  have n1: "take (length (view d)) (map role_name (view ?d1)) = map role_name (view d)"
    by (simp add: upsert_state_simps upsert_rows_names)
  from Cons.IH [OF dist]
  have u2: "take (length (view ?d1)) (map role_uid ?v) = map role_uid (view ?d1)"
    and n2: "take (length (view ?d1)) (map role_name ?v) = map role_name (view ?d1)"
    by simp_all
  have "take (length (view d)) (map role_uid ?v) =
      take (length (view d)) (take (length (view ?d1)) (map role_uid ?v))"
    using le by (simp add: min_def)
  also have "\<dots> = map role_uid (view d)"
    by (simp only: u2 u1)
  finally have U: "take (length (view d)) (map role_uid ?v) = map role_uid (view d)" .
  have "take (length (view d)) (map role_name ?v) =
      take (length (view d)) (take (length (view ?d1)) (map role_name ?v))"
    using le by (simp add: min_def)
  also have "\<dots> = map role_name (view d)"
    by (simp only: n2 n1)
  finally have N: "take (length (view d)) (map role_name ?v) = map role_name (view d)" .
  from U N show ?case
    unfolding upsert_roles_Cons [OF Cons.prems] by simp
qed

lemma upsert_roles_others:
  "distinct (map role_name (view d)) \<Longrightarrow> x \<in> set (view (snd (upsert_roles imp rs d))) \<Longrightarrow>
   role_name x \<notin> set (map def_name rs) \<Longrightarrow> x \<in> set (view d)"
proof (induction rs arbitrary: d)
  case Nil
  then show ?case by simp
next
  case (Cons r rs)
  from Cons.prems(1) have dist: "distinct (map role_name (view (upsert_state imp r d)))"
    by (rule upsert_state_distinct)
  from Cons.prems(2) have "x \<in> set (view (snd (upsert_roles imp rs (upsert_state imp r d))))"
    unfolding upsert_roles_Cons [OF Cons.prems(1)] .
  moreover from Cons.prems(3) have "role_name x \<notin> set (map def_name rs)" "role_name x \<noteq> def_name r"
    by auto
  ultimately have "x \<in> set (upsert_rows imp (scope_env d) r (view d))"
    using Cons.IH [OF dist] by (simp add: upsert_state_simps)
  then show ?case
    using \<open>role_name x \<noteq> def_name r\<close> by (rule upsert_rows_others)
qed

lemma upsert_roles_canonical:
  "distinct (map role_name (view d)) \<Longrightarrow> distinct (map def_name rs) \<Longrightarrow>
   x \<in> set (view (snd (upsert_roles imp rs d))) \<Longrightarrow> r \<in> set rs \<Longrightarrow> canonical r x"
proof (induction rs arbitrary: d)
  case Nil
  then show ?case by simp
next
  case (Cons a rs)
  let ?d1 = "upsert_state imp a d"
  from Cons.prems(1) have dist: "distinct (map role_name (view ?d1))"
    by (rule upsert_state_distinct)
  from Cons.prems(3) have mem: "x \<in> set (view (snd (upsert_roles imp rs ?d1)))"
    unfolding upsert_roles_Cons [OF Cons.prems(1)] .
  show ?case
  proof (cases "r \<in> set rs")
    case True
    with Cons.IH [OF dist _ mem] Cons.prems(2) show ?thesis by simp
  next
    case False
    with Cons.prems(4) have ra: "r = a" by simp
    show ?thesis
    proof (cases "role_name x = def_name a")
      case True
      with Cons.prems(2) have "role_name x \<notin> set (map def_name rs)" by auto
      with dist mem have "x \<in> set (view ?d1)"
        by (rule upsert_roles_others)
      then have "x \<in> set (upsert_rows imp (scope_env d) a (view d))"
        by (simp add: upsert_state_simps)
      then show ?thesis
        unfolding ra by (rule upsert_rows_canonical)
    next
      case False
      then show ?thesis by (simp add: canonical_def ra)
    qed
  qed
qed


lemma upsert_roles_fixed:
  "distinct (map role_name (view d)) \<Longrightarrow> set (map def_name rs) \<subseteq> set (map role_name (view d)) \<Longrightarrow>
   \<forall>x\<in>set (view d). \<forall>r\<in>set rs. canonical r x \<Longrightarrow>
   view (snd (upsert_roles imp rs d)) = view d"
proof (induction rs arbitrary: d)
  case Nil
  then show ?case by simp
next
  case (Cons r rs)
  let ?d1 = "upsert_state imp r d"
  have v1: "view ?d1 = view d"
    using Cons.prems(2,3) by (simp add: upsert_state_simps upsert_rows_fixed)
  with Cons.prems have "view (snd (upsert_roles imp rs ?d1)) = view ?d1"
    by (intro Cons.IH) simp_all
  with v1 show ?case
    unfolding upsert_roles_Cons [OF Cons.prems(1)] by simp
qed

lemma initialize_role_table_eq:
  assumes "distinct (map role_name (view d))"
  shows "initialize_role_table imp d =
    (Inr (), session_close (session_commit (snd (upsert_roles imp roles d))))"
proof -
  obtain res d1 where run: "upsert_roles imp roles d = (res, d1)"
    by (cases "upsert_roles imp roles d")
  with upsert_roles_returns [OF assms, of imp roles] have "res = Inr ()" by simp
  with run show ?thesis
    by (simp add: initialize_role_table_def initialize_role_table_body_def
        db_session_manager_def session_finally_def)
qed

lemma role_names: "map def_name roles = [''user'', ''editor'', ''admin'']"
  by (simp add: roles_def)

lemma permission_chain:
  "strict_bit_subset (permission_value REGISTERED)
     (permission_value REGISTERED OR permission_value EDITOR)"
  "strict_bit_subset (permission_value REGISTERED OR permission_value EDITOR)
     (permission_value REGISTERED OR permission_value EDITOR OR permission_value ADMINISTRATOR)"
  by (simp_all add: strict_bit_subset_def)

text \<open>
  C5. Run on a role table whose names are distinct and among \<^verbatim>\<open>user\<close>, \<^verbatim>\<open>editor\<close>,
  \<^verbatim>\<open>admin\<close> (the empty table, the table a run has left, the same with a description or
  the permissions of a role altered), \<^verbatim>\<open>initialize_role_table\<close> returns, and the stored
  table then has exactly three rows, named \<^verbatim>\<open>user\<close>, \<^verbatim>\<open>editor\<close> and \<^verbatim>\<open>admin\<close>, each with
  the description and the permissions of its definition; the permissions of \<^verbatim>\<open>user\<close> are
  a strict bit subset of those of \<^verbatim>\<open>editor\<close>, and these of those of \<^verbatim>\<open>admin\<close>; the rows
  that were there keep their place, their \<^verbatim>\<open>role_uid\<close> and their name; the session has
  seen the three \<^verbatim>\<open>add\<close> calls, then one \<^verbatim>\<open>commit\<close>, then the \<^verbatim>\<open>close\<close> of the scope; and
  a second run leaves the stored table as it is.
\<close>

theorem initialize_role_table_upsert:
  assumes "distinct (map role_name (view d))"
    and "set (map role_name (view d)) \<subseteq> {''user'', ''editor'', ''admin''}"
  shows "\<exists>d'. initialize_role_table imp d = (Inr (), d') \<and>
    length (stored d') = 3 \<and>
    set (map role_name (stored d')) = {''user'', ''editor'', ''admin''} \<and>
    (\<forall>x\<in>set (stored d'). \<forall>r\<in>set roles. canonical r x) \<and>
    (\<forall>x\<in>set (stored d'). \<forall>y\<in>set (stored d'). \<forall>z\<in>set (stored d').
       role_name x = ''user'' \<and> role_name y = ''editor'' \<and> role_name z = ''admin'' \<longrightarrow>
       strict_bit_subset (raw_permissions x) (raw_permissions y) \<and>
       strict_bit_subset (raw_permissions y) (raw_permissions z)) \<and>
    take (length (view d)) (map role_uid (stored d')) = map role_uid (view d) \<and>
    take (length (view d)) (map role_name (stored d')) = map role_name (view d) \<and>
    session d' = session d @
      [Add (RoleRow ''user''), Add (RoleRow ''editor''), Add (RoleRow ''admin''), Commit, Close] \<and>
    view d' = stored d' \<and>
    (\<forall>imp'. stored (snd (initialize_role_table imp' d')) = stored d')"
proof -
  let ?l = "snd (upsert_roles imp roles d)"
  let ?d' = "session_close (session_commit ?l)"
  have run: "initialize_role_table imp d = (Inr (), ?d')"
    by (rule initialize_role_table_eq [OF assms(1)])
  have st: "stored ?d' = view ?l" and vw: "view ?d' = view ?l"
    by (simp_all add: session_close_def session_commit_def)
  have dist: "distinct (map role_name (view ?l))"
    and names: "set (map role_name (view ?l)) = {''user'', ''editor'', ''admin''}"
    using upsert_roles_names [OF assms(1), of imp roles] assms(2)
    by (auto simp: role_names)
  have "length (view ?l) = card (set (map role_name (view ?l)))"
    using distinct_card [OF dist] by simp
  also have "\<dots> = 3"
    unfolding names by simp
  finally have len: "length (view ?l) = 3" .
  have canon: "\<forall>x\<in>set (view ?l). \<forall>r\<in>set roles. canonical r x"
    using upsert_roles_canonical [OF assms(1), of roles _ imp]
    by (simp add: role_names del: set_map)
  have chain: "\<forall>x\<in>set (view ?l). \<forall>y\<in>set (view ?l). \<forall>z\<in>set (view ?l).
       role_name x = ''user'' \<and> role_name y = ''editor'' \<and> role_name z = ''admin'' \<longrightarrow>
       strict_bit_subset (raw_permissions x) (raw_permissions y) \<and>
       strict_bit_subset (raw_permissions y) (raw_permissions z)"
    using canon permission_chain by (simp add: roles_def canonical_def)
  have prefix: "take (length (view d)) (map role_uid (view ?l)) = map role_uid (view d)"
      "take (length (view d)) (map role_name (view ?l)) = map role_name (view d)"
    using upsert_roles_prefix [OF assms(1), of imp roles] by simp_all
  have log: "session ?d' = session d @
      [Add (RoleRow ''user''), Add (RoleRow ''editor''), Add (RoleRow ''admin''), Commit, Close]"
    using upsert_roles_session [OF assms(1), of imp roles]
    by (simp add: session_close_def session_commit_def roles_def)
  have again: "stored (snd (initialize_role_table imp' ?d')) = stored ?d'" for imp'
  proof -
    have d: "distinct (map role_name (view ?d'))"
      using dist by (simp only: vw)
    have "view (snd (upsert_roles imp' roles ?d')) = view ?d'"
    proof (rule upsert_roles_fixed [OF d])
      show "set (map def_name roles) \<subseteq> set (map role_name (view ?d'))"
        unfolding vw names by (simp add: role_names)
      show "\<forall>x\<in>set (view ?d'). \<forall>r\<in>set roles. canonical r x"
        unfolding vw by (rule canon)
    qed
    then show ?thesis
      unfolding initialize_role_table_eq [OF d]
      by (simp add: session_close_def session_commit_def)
  qed
  from run len names canon chain prefix log again show ?thesis
    unfolding st vw [symmetric] by (intro exI [of _ ?d']) (simp only: st vw simp_thms)
qed


lemmas role_eval = initialize_role_table_def initialize_role_table_body_def
  db_session_manager_def session_finally_def session_close_def session_commit_def
  session_add_def upsert_role_def one_or_none_def roles_def scope_env_def
  role_flush_insert_def role_flush_update_def role_uid_default_def role_active_default_def
  role_created_default_def role_updated_default_def role_updated_onupdate_def get_uuid_def
  datetime_now_def Let_def

theorem initialize_role_table_upsert_witness:
  "stored (snd (initialize_role_table import_env empty_role_scope)) =
     [\<lparr>role_uid = ''id'', role_name = ''user'', description = ''registered user permission'',
       raw_permissions = 1, role_active = True, role_created = 100, role_updated = 100\<rparr>,
      \<lparr>role_uid = ''idx'', role_name = ''editor'',
       description = ''user has ability to edit all content and comments'',
       raw_permissions = 3, role_active = True, role_created = 100, role_updated = 100\<rparr>,
      \<lparr>role_uid = ''idxx'', role_name = ''admin'',
       description = ''administrator user with access to all of the application'',
       raw_permissions = 7, role_active = True, role_created = 100, role_updated = 100\<rparr>] \<and>
   stored (snd (initialize_role_table import_env altered_role_scope)) =
     [\<lparr>role_uid = ''r1'', role_name = ''user'', description = ''registered user permission'',
       raw_permissions = 1, role_active = True, role_created = 7, role_updated = 7\<rparr>,
      \<lparr>role_uid = ''r2'', role_name = ''editor'',
       description = ''user has ability to edit all content and comments'',
       raw_permissions = 3, role_active = True, role_created = 7, role_updated = 100\<rparr>,
      \<lparr>role_uid = ''id'', role_name = ''admin'',
       description = ''administrator user with access to all of the application'',
       raw_permissions = 7, role_active = True, role_created = 100, role_updated = 100\<rparr>]"
proof -
  have e: "distinct (map role_name (view empty_role_scope)) \<and>
      set (map role_name (view empty_role_scope)) \<subseteq> {''user'', ''editor'', ''admin''}"
    by (simp add: empty_role_scope_def)
  have a: "distinct (map role_name (view altered_role_scope)) \<and>
      set (map role_name (view altered_role_scope)) \<subseteq> {''user'', ''editor'', ''admin''}"
    by (simp add: altered_role_scope_def altered_roles_def)
  show ?thesis
    using initialize_role_table_upsert [of empty_role_scope import_env] e
      initialize_role_table_upsert [of altered_role_scope import_env] a
    by (simp add: role_eval empty_role_scope_def altered_role_scope_def altered_roles_def
        import_env_def sample_uuid_def)
qed

end
